theory Spec2Isabelle
  imports Main "HOL-Library.Word"
begin

unbundle bit_operations_syntax

section \<open>Hardware registers and vendor constants\<close>

text \<open>
  The lab code talks to the MSPM0 peripherals through memory-mapped registers: every
  statement of \<^verbatim>\<open>hw_interface.c\<close> and \<^verbatim>\<open>lab5.c\<close> is a read or a write of a 32-bit
  register such as \<^verbatim>\<open>TIMA1->COUNTERREGS.CTRCTL\<close>. The registers the two files touch are
  named by the datatype \<open>reg\<close>; the two timer instances share one register layout.
\<close>

type_synonym u32 = "32 word"
type_synonym u16 = "16 word"

datatype timer = TIMG0 | TIMA1

datatype timer_field =
    GPRCM_RSTCTL
  | GPRCM_PWREN
  | CLKSEL
  | CLKDIV
  | CPU_INT_IMASK
  | CPU_INT_IIDX
  | COMMONREGS_CCPD
  | COMMONREGS_CCLKCTL
  | COUNTERREGS_CTRCTL
  | COUNTERREGS_LOAD
  | COUNTERREGS_CC_01 nat
  | COUNTERREGS_CCACT_01 nat

datatype reg =
    GPIOA_GPRCM_RSTCTL
  | GPIOA_GPRCM_PWREN
  | GPIOA_DIN31_0
  | IOMUX_SECCFG_PINCM nat
  | Timer timer timer_field

text \<open>
  The bit patterns of the register fields come from the vendor header
  \<^verbatim>\<open>ti/devices/msp/msp.h\<close>, which is not part of the repository. The macros the two
  files use are listed by name, and every operation takes their values as a parameter
  \<open>k\<close>: the theorems below hold for whatever values the header gives them.
\<close>

datatype vmacro =
    GPIO_RSTCTL_KEY_UNLOCK_W
  | GPIO_RSTCTL_RESETSTKYCLR_CLR
  | GPIO_RSTCTL_RESETASSERT_ASSERT
  | GPIO_PWREN_KEY_UNLOCK_W
  | GPIO_PWREN_ENABLE_ENABLE
  | IOMUX_PINCM37
  | IOMUX_PINCM53
  | IOMUX_PINCM54
  | IOMUX_PINCM55
  | IOMUX_PINCM59
  | IOMUX_PINCM_PC_CONNECTED
  | IOMUX_PINCM37_PF_TIMA1_CCP0
  | IOMUX_PINCM_INENA_ENABLE
  | IOMUX_PINCM_INV_DISABLE
  | IOMUX_PINCM_PIPU_ENABLE
  | IOMUX_PINCM_PIPD_DISABLE
  | IOMUX_PINCM_HYSTEN_DISABLE
  | IOMUX_PINCM_WUEN_DISABLE
  | GPTIMER_RSTCTL_KEY_UNLOCK_W
  | GPTIMER_RSTCTL_RESETSTKYCLR_CLR
  | GPTIMER_RSTCTL_RESETASSERT_ASSERT
  | GPTIMER_PWREN_KEY_UNLOCK_W
  | GPTIMER_PWREN_ENABLE_ENABLE
  | GPTIMER_CLKSEL_LFCLK_SEL_ENABLE
  | GPTIMER_CLKSEL_BUSCLK_SEL_ENABLE
  | GPTIMER_CLKDIV_RATIO_DIV_BY_4
  | GPTIMER_CTRCTL_REPEAT_REPEAT_1
  | GPTIMER_CTRCTL_CM_UP
  | GPTIMER_CTRCTL_CVAE_ZEROVAL
  | GPTIMER_CTRCTL_EN_DISABLED
  | GPTIMER_CTRCTL_EN_ENABLED
  | GPTIMER_CPU_INT_IMASK_Z_SET
  | GPTIMER_CPU_INT_IIDX_STAT_Z
  | GPTIMER_CCLKCTL_CLKEN_ENABLED
  | GPTIMER_CCACT_01_ZACT_CCP_HIGH
  | GPTIMER_CCACT_01_CUACT_CCP_LOW
  | GPTIMER_CCPD_C0CCP0_OUTPUT
  | GPTIMER_CCPD_C0CCP1_OUTPUT
  | TIMG0_INT_IRQn

type_synonym vendor = "vmacro \<Rightarrow> u32"

text \<open>
  The state the program acts on: the contents of the registers, the interrupt lines for
  which \<^verbatim>\<open>NVIC_EnableIRQ\<close> has been called, and the log of the register writes the
  program has performed, oldest first. The log is what a bus analyser would see; it is
  not readable by the program.
\<close>

record hw_state =
  regs :: "reg \<Rightarrow> u32"
  nvic_enabled :: "u32 set"
  writes :: "(reg \<times> u32) list"

definition read_reg :: "reg \<Rightarrow> hw_state \<Rightarrow> u32" where
  "read_reg r s = regs s r"

definition write_reg :: "reg \<Rightarrow> u32 \<Rightarrow> hw_state \<Rightarrow> hw_state" where
  "write_reg r v s = s\<lparr>regs := (regs s)(r := v), writes := writes s @ [(r, v)]\<rparr>"

text \<open>The compound assignments \<^verbatim>\<open>R |= v\<close> and \<^verbatim>\<open>R &= v\<close>: one read, then one write.\<close>

definition or_reg :: "reg \<Rightarrow> u32 \<Rightarrow> hw_state \<Rightarrow> hw_state" where
  "or_reg r v s = write_reg r (read_reg r s OR v) s"

definition and_reg :: "reg \<Rightarrow> u32 \<Rightarrow> hw_state \<Rightarrow> hw_state" where
  "and_reg r v s = write_reg r (read_reg r s AND v) s"

text \<open>A block of statements, executed first to last.\<close>

definition block :: "(hw_state \<Rightarrow> hw_state) list \<Rightarrow> hw_state \<Rightarrow> hw_state" where
  "block stmts s = fold (\<lambda>stmt. stmt) stmts s"

text \<open>
  \<^verbatim>\<open>NVIC_EnableIRQ\<close> belongs to the CMSIS core header, outside the repository; it is
  represented by its effect of marking the interrupt line as enabled.
\<close>

definition NVIC_EnableIRQ :: "u32 \<Rightarrow> hw_state \<Rightarrow> hw_state" where
  "NVIC_EnableIRQ irqn s = s\<lparr>nvic_enabled := insert irqn (nvic_enabled s)\<rparr>"

text \<open>
  \<^verbatim>\<open>__WFI()\<close> suspends the core until the next interrupt. It touches no register; what
  changes while the core sleeps is the level of the input pins, see \<open>gpio_sample\<close>.
\<close>

definition WFI :: "hw_state \<Rightarrow> hw_state" where
  "WFI s = s"

section \<open>hw\_interface.h\<close>

definition POWER_STARTUP_DELAY :: u32 where
  "POWER_STARTUP_DELAY = 16"

definition SW1 :: u32 where
  "SW1 = push_bit 23 1"

definition SW2 :: u32 where
  "SW2 = push_bit 24 1"

definition SW3 :: u32 where
  "SW3 = push_bit 25 1"

definition SW4 :: u32 where
  "SW4 = push_bit 26 1"

section \<open>hw\_interface.c\<close>

subsection \<open>The three functions left to be written\<close>

text \<open>Each of the three bodies is a comment followed by \<^verbatim>\<open>return;\<close>.\<close>

definition SetTimerA1Period :: "u16 \<Rightarrow> hw_state \<Rightarrow> hw_state" where
  "SetTimerA1Period period s = s"

definition EnableTimerA1PWM :: "hw_state \<Rightarrow> hw_state" where
  "EnableTimerA1PWM s = s"

definition DisableTimerA1PWM :: "hw_state \<Rightarrow> hw_state" where
  "DisableTimerA1PWM s = s"

subsection \<open>The delay loop\<close>

text \<open>
  \<^verbatim>\<open>delay_cycles\<close> is three instructions of inline assembly around a scratch register:
  \<^verbatim>\<open>SUBS scratch, cycles, #2\<close>, then the loop \<^verbatim>\<open>SUBS scratch, scratch, #4; NOP; BHS loop\<close>.
  \<^verbatim>\<open>SUBS\<close> sets the carry flag when the subtraction does not borrow, and \<^verbatim>\<open>BHS\<close>
  branches back while it is set. \<open>delay_loop\<close> returns the scratch register at loop exit.
\<close>

function delay_loop :: "u32 \<Rightarrow> u32" where
  "delay_loop scratch = (if 4 \<le> scratch then delay_loop (scratch - 4) else scratch - 4)"
  by pat_completeness auto
termination
proof (relation "measure unat")
  show "wf (measure unat)" by simp
next
  fix scratch :: u32
  assume "4 \<le> scratch"
  then have "unat (scratch - 4) = unat scratch - 4"
    by (simp add: unat_sub)
  moreover from \<open>4 \<le> scratch\<close> have "4 \<le> unat scratch"
    by (simp add: word_le_nat_alt)
  ultimately show "(scratch - 4, scratch) \<in> measure unat"
    by simp
qed

declare delay_loop.simps [simp del]

definition delay_cycles :: "u32 \<Rightarrow> hw_state \<Rightarrow> hw_state" where
  "delay_cycles cycles s = (let scratch = delay_loop (cycles - 2) in s)"

subsection \<open>GPIO and pin multiplexer\<close>

definition input_configuration :: "vendor \<Rightarrow> u32" where
  "input_configuration k =
     k IOMUX_PINCM_PC_CONNECTED OR k IOMUX_PINCM_INENA_ENABLE OR
     0x00000001 OR
     k IOMUX_PINCM_INV_DISABLE OR
     k IOMUX_PINCM_PIPU_ENABLE OR k IOMUX_PINCM_PIPD_DISABLE OR
     k IOMUX_PINCM_HYSTEN_DISABLE OR
     k IOMUX_PINCM_WUEN_DISABLE"

definition InitializeGPIO :: "vendor \<Rightarrow> hw_state \<Rightarrow> hw_state" where
  "InitializeGPIO k = block
     [ write_reg GPIOA_GPRCM_RSTCTL
         (k GPIO_RSTCTL_KEY_UNLOCK_W OR k GPIO_RSTCTL_RESETSTKYCLR_CLR OR
          k GPIO_RSTCTL_RESETASSERT_ASSERT),
       write_reg GPIOA_GPRCM_PWREN
         (k GPIO_PWREN_KEY_UNLOCK_W OR k GPIO_PWREN_ENABLE_ENABLE),
       delay_cycles POWER_STARTUP_DELAY,
       write_reg (IOMUX_SECCFG_PINCM (unat (k IOMUX_PINCM37)))
         (k IOMUX_PINCM_PC_CONNECTED OR k IOMUX_PINCM37_PF_TIMA1_CCP0),
       write_reg (IOMUX_SECCFG_PINCM (unat (k IOMUX_PINCM53))) (input_configuration k),
       write_reg (IOMUX_SECCFG_PINCM (unat (k IOMUX_PINCM54))) (input_configuration k),
       write_reg (IOMUX_SECCFG_PINCM (unat (k IOMUX_PINCM55))) (input_configuration k),
       write_reg (IOMUX_SECCFG_PINCM (unat (k IOMUX_PINCM59))) (input_configuration k),
       delay_cycles POWER_STARTUP_DELAY ]"

subsection \<open>The tick timer TIMG0\<close>

definition SetTimerG0Delay :: "u16 \<Rightarrow> hw_state \<Rightarrow> hw_state" where
  "SetTimerG0Delay delay = write_reg (Timer TIMG0 COUNTERREGS_LOAD) (ucast delay)"

definition EnableTimerG0 :: "vendor \<Rightarrow> hw_state \<Rightarrow> hw_state" where
  "EnableTimerG0 k = block
     [ or_reg (Timer TIMG0 COUNTERREGS_CTRCTL) (k GPTIMER_CTRCTL_EN_ENABLED),
       NVIC_EnableIRQ (k TIMG0_INT_IRQn) ]"

definition InitializeTimerG0 :: "vendor \<Rightarrow> hw_state \<Rightarrow> hw_state" where
  "InitializeTimerG0 k = block
     [ write_reg (Timer TIMG0 GPRCM_RSTCTL)
         (k GPTIMER_RSTCTL_KEY_UNLOCK_W OR k GPTIMER_RSTCTL_RESETSTKYCLR_CLR OR
          k GPTIMER_RSTCTL_RESETASSERT_ASSERT),
       write_reg (Timer TIMG0 GPRCM_PWREN)
         (k GPTIMER_PWREN_KEY_UNLOCK_W OR k GPTIMER_PWREN_ENABLE_ENABLE),
       delay_cycles 16,
       write_reg (Timer TIMG0 CLKSEL) (k GPTIMER_CLKSEL_LFCLK_SEL_ENABLE),
       write_reg (Timer TIMG0 COUNTERREGS_CTRCTL) (k GPTIMER_CTRCTL_REPEAT_REPEAT_1),
       or_reg (Timer TIMG0 CPU_INT_IMASK) (k GPTIMER_CPU_INT_IMASK_Z_SET),
       write_reg (Timer TIMG0 COMMONREGS_CCLKCTL) (k GPTIMER_CCLKCTL_CLKEN_ENABLED) ]"

text \<open>
  The interrupt handler reads the interrupt index and does nothing in either branch of
  its \<^verbatim>\<open>switch\<close>.
\<close>

definition TIMG0_IRQHandler :: "vendor \<Rightarrow> hw_state \<Rightarrow> hw_state" where
  "TIMG0_IRQHandler k s =
     (if read_reg (Timer TIMG0 CPU_INT_IIDX) s = k GPTIMER_CPU_INT_IIDX_STAT_Z then s else s)"

subsection \<open>The PWM timer TIMA1\<close>

definition InitializeTimerA1_PWM :: "vendor \<Rightarrow> hw_state \<Rightarrow> hw_state" where
  "InitializeTimerA1_PWM k = block
     [ write_reg (Timer TIMA1 GPRCM_RSTCTL)
         (k GPTIMER_RSTCTL_KEY_UNLOCK_W OR k GPTIMER_RSTCTL_RESETSTKYCLR_CLR OR
          k GPTIMER_RSTCTL_RESETASSERT_ASSERT),
       write_reg (Timer TIMA1 GPRCM_PWREN)
         (k GPTIMER_PWREN_KEY_UNLOCK_W OR k GPTIMER_PWREN_ENABLE_ENABLE),
       delay_cycles POWER_STARTUP_DELAY,
       write_reg (Timer TIMA1 CLKSEL) (k GPTIMER_CLKSEL_BUSCLK_SEL_ENABLE),
       write_reg (Timer TIMA1 CLKDIV) (k GPTIMER_CLKDIV_RATIO_DIV_BY_4),
       write_reg (Timer TIMA1 (COUNTERREGS_CCACT_01 0))
         (k GPTIMER_CCACT_01_ZACT_CCP_HIGH OR k GPTIMER_CCACT_01_CUACT_CCP_LOW),
       write_reg (Timer TIMA1 COUNTERREGS_CTRCTL)
         (k GPTIMER_CTRCTL_REPEAT_REPEAT_1 OR k GPTIMER_CTRCTL_CM_UP OR
          k GPTIMER_CTRCTL_CVAE_ZEROVAL OR k GPTIMER_CTRCTL_EN_DISABLED),
       write_reg (Timer TIMA1 COMMONREGS_CCPD)
         (k GPTIMER_CCPD_C0CCP0_OUTPUT OR k GPTIMER_CCPD_C0CCP1_OUTPUT),
       write_reg (Timer TIMA1 COMMONREGS_CCLKCTL) (k GPTIMER_CCLKCTL_CLKEN_ENABLED),
       write_reg (Timer TIMA1 COUNTERREGS_LOAD) 3999,
       (\<lambda>s. write_reg (Timer TIMA1 (COUNTERREGS_CC_01 0))
               ((read_reg (Timer TIMA1 COUNTERREGS_LOAD) s + 1) div 2) s),
       or_reg (Timer TIMA1 COUNTERREGS_CTRCTL) (k GPTIMER_CTRCTL_EN_ENABLED) ]"

section \<open>lab5.c\<close>

text \<open>
  The two statements the program uses to switch the buzzer:
  \<^verbatim>\<open>TIMA1->COUNTERREGS.CTRCTL |= (GPTIMER_CTRCTL_EN_ENABLED)\<close> and
  \<^verbatim>\<open>TIMA1->COUNTERREGS.CTRCTL &= ~(GPTIMER_CTRCTL_EN_ENABLED)\<close>.
\<close>

definition buzzer_enable :: "vendor \<Rightarrow> hw_state \<Rightarrow> hw_state" where
  "buzzer_enable k = or_reg (Timer TIMA1 COUNTERREGS_CTRCTL) (k GPTIMER_CTRCTL_EN_ENABLED)"

definition buzzer_disable :: "vendor \<Rightarrow> hw_state \<Rightarrow> hw_state" where
  "buzzer_disable k =
     and_reg (Timer TIMA1 COUNTERREGS_CTRCTL) (NOT (k GPTIMER_CTRCTL_EN_ENABLED))"

text \<open>The statements of \<^verbatim>\<open>main\<close> before the loop.\<close>

definition main_init :: "vendor \<Rightarrow> hw_state \<Rightarrow> hw_state" where
  "main_init k = block
     [ InitializeGPIO k,
       InitializeTimerG0 k,
       InitializeTimerA1_PWM k,
       delay_cycles 1600000,
       buzzer_disable k,
       SetTimerG0Delay 20,
       EnableTimerG0 k ]"

text \<open>One pass through the body of \<^verbatim>\<open>while (1)\<close>.\<close>

definition loop_body :: "vendor \<Rightarrow> hw_state \<Rightarrow> hw_state" where
  "loop_body k s =
     (let input = read_reg GPIOA_DIN31_0 s AND (SW1 + SW2 + SW3 + SW4) in
      WFI (if input AND SW1 = 0 then buzzer_enable k s else buzzer_disable k s))"

text \<open>
  \<^verbatim>\<open>GPIOA->DIN31_0\<close> is driven by the pins, not by the program: before each pass the
  environment presents the current pin levels \<open>d\<close>. This is no register write of the
  program and does not enter the log.
\<close>

definition gpio_sample :: "u32 \<Rightarrow> hw_state \<Rightarrow> hw_state" where
  "gpio_sample d s = s\<lparr>regs := (regs s)(GPIOA_DIN31_0 := d)\<rparr>"

text \<open>
  The loop never exits. \<open>main_loop k ds\<close> is its run over the ticks for which the pin
  levels are \<open>ds\<close>, one pass per tick; \<open>main\<close> is the program up to the end of these
  ticks.
\<close>

fun main_loop :: "vendor \<Rightarrow> u32 list \<Rightarrow> hw_state \<Rightarrow> hw_state" where
  "main_loop k [] s = s"
| "main_loop k (d # ds) s = main_loop k ds (loop_body k (gpio_sample d s))"

definition main :: "vendor \<Rightarrow> u32 list \<Rightarrow> hw_state \<Rightarrow> hw_state" where
  "main k ds s = main_loop k ds (main_init k s)"

text \<open>The enable field of the PWM timer's control register, as the program left it.\<close>

definition pwm_en :: "vendor \<Rightarrow> hw_state \<Rightarrow> u32" where
  "pwm_en k s = read_reg (Timer TIMA1 COUNTERREGS_CTRCTL) s AND k GPTIMER_CTRCTL_EN_ENABLED"

section \<open>Timing, as the comments of the source give it\<close>

text \<open>
  \<^verbatim>\<open>BUSCLK will be SYSOSC / 32 MHz\<close>, \<^verbatim>\<open>Divide by 4 to make PWM clock frequency 8 MHz\<close>,
  \<^verbatim>\<open>Period is LOAD+1 - this is 8000000/4000 = 2kHz\<close> and
  \<^verbatim>\<open>20 ticks at 32 kHz is 0.6 ms\<close>.
\<close>

definition BUSCLK_HZ :: nat where
  "BUSCLK_HZ = 32000000"

text \<open>
  The clock of the PWM timer, read off its registers: the one configuration the source
  names is BUSCLK selected in CLKSEL with the divide-by-4 ratio in CLKDIV, which the
  comments give as 32 MHz / 4. Any other register contents are not interpreted.
\<close>

definition TIMA1_clock_hz :: "vendor \<Rightarrow> hw_state \<Rightarrow> nat option" where
  "TIMA1_clock_hz k s =
     (if read_reg (Timer TIMA1 CLKSEL) s = k GPTIMER_CLKSEL_BUSCLK_SEL_ENABLE \<and>
         read_reg (Timer TIMA1 CLKDIV) s = k GPTIMER_CLKDIV_RATIO_DIV_BY_4
      then Some (BUSCLK_HZ div 4) else None)"

text \<open>The timer counts from 0 up to LOAD: one period is LOAD + 1 ticks of its clock.\<close>

definition pwm_period_ticks :: "hw_state \<Rightarrow> nat" where
  "pwm_period_ticks s = unat (read_reg (Timer TIMA1 COUNTERREGS_LOAD) s) + 1"

definition pwm_frequency_hz :: "vendor \<Rightarrow> hw_state \<Rightarrow> nat option" where
  "pwm_frequency_hz k s =
     (case TIMA1_clock_hz k s of
        None \<Rightarrow> None
      | Some clock \<Rightarrow> Some (clock div pwm_period_ticks s))"

definition tick_interval_us :: "nat \<Rightarrow> u32 \<Rightarrow> nat" where
  "tick_interval_us lfclk_hz load = unat load * 1000000 div lfclk_hz"

section \<open>Concrete inputs\<close>

text \<open>
  One valuation of the vendor macros, for evaluating the program on concrete inputs: the
  enable field is bit 0 and the repeat field bit 1 of CTRCTL, the zero event is bit 0 of
  the interrupt mask. The general theorems do not depend on it.
\<close>

fun example_vendor :: vendor where
  "example_vendor GPIO_RSTCTL_KEY_UNLOCK_W = 0xB1000000"
| "example_vendor GPIO_RSTCTL_RESETSTKYCLR_CLR = 0x00000002"
| "example_vendor GPIO_RSTCTL_RESETASSERT_ASSERT = 0x00000001"
| "example_vendor GPIO_PWREN_KEY_UNLOCK_W = 0x26000000"
| "example_vendor GPIO_PWREN_ENABLE_ENABLE = 0x00000001"
| "example_vendor IOMUX_PINCM37 = 36"
| "example_vendor IOMUX_PINCM53 = 52"
| "example_vendor IOMUX_PINCM54 = 53"
| "example_vendor IOMUX_PINCM55 = 54"
| "example_vendor IOMUX_PINCM59 = 58"
| "example_vendor IOMUX_PINCM_PC_CONNECTED = 0x00000080"
| "example_vendor IOMUX_PINCM37_PF_TIMA1_CCP0 = 0x00000005"
| "example_vendor IOMUX_PINCM_INENA_ENABLE = 0x00040000"
| "example_vendor IOMUX_PINCM_INV_DISABLE = 0x00000000"
| "example_vendor IOMUX_PINCM_PIPU_ENABLE = 0x00020000"
| "example_vendor IOMUX_PINCM_PIPD_DISABLE = 0x00000000"
| "example_vendor IOMUX_PINCM_HYSTEN_DISABLE = 0x00000000"
| "example_vendor IOMUX_PINCM_WUEN_DISABLE = 0x00000000"
| "example_vendor GPTIMER_RSTCTL_KEY_UNLOCK_W = 0xB1000000"
| "example_vendor GPTIMER_RSTCTL_RESETSTKYCLR_CLR = 0x00000002"
| "example_vendor GPTIMER_RSTCTL_RESETASSERT_ASSERT = 0x00000001"
| "example_vendor GPTIMER_PWREN_KEY_UNLOCK_W = 0x26000000"
| "example_vendor GPTIMER_PWREN_ENABLE_ENABLE = 0x00000001"
| "example_vendor GPTIMER_CLKSEL_LFCLK_SEL_ENABLE = 0x00000002"
| "example_vendor GPTIMER_CLKSEL_BUSCLK_SEL_ENABLE = 0x00000008"
| "example_vendor GPTIMER_CLKDIV_RATIO_DIV_BY_4 = 0x00000003"
| "example_vendor GPTIMER_CTRCTL_REPEAT_REPEAT_1 = 0x00000002"
| "example_vendor GPTIMER_CTRCTL_CM_UP = 0x00000020"
| "example_vendor GPTIMER_CTRCTL_CVAE_ZEROVAL = 0x20000000"
| "example_vendor GPTIMER_CTRCTL_EN_DISABLED = 0x00000000"
| "example_vendor GPTIMER_CTRCTL_EN_ENABLED = 0x00000001"
| "example_vendor GPTIMER_CPU_INT_IMASK_Z_SET = 0x00000001"
| "example_vendor GPTIMER_CPU_INT_IIDX_STAT_Z = 0x00000001"
| "example_vendor GPTIMER_CCLKCTL_CLKEN_ENABLED = 0x00000001"
| "example_vendor GPTIMER_CCACT_01_ZACT_CCP_HIGH = 0x00000001"
| "example_vendor GPTIMER_CCACT_01_CUACT_CCP_LOW = 0x00000400"
| "example_vendor GPTIMER_CCPD_C0CCP0_OUTPUT = 0x00000001"
| "example_vendor GPTIMER_CCPD_C0CCP1_OUTPUT = 0x00000002"
| "example_vendor TIMG0_INT_IRQn = 16"

text \<open>A state in which every register reads zero and nothing has happened yet.\<close>

definition blank_state :: hw_state where
  "blank_state = \<lparr>regs = (\<lambda>r. 0), nvic_enabled = {}, writes = []\<rparr>"

text \<open>Pin levels: a released button reads 1, a pressed one 0.\<close>

definition all_released :: u32 where
  "all_released = 0x07800000"

definition sw1_pressed :: u32 where
  "sw1_pressed = 0x07000000"

definition sw234_pressed :: u32 where
  "sw234_pressed = 0x00800000"

section \<open>Basic facts about the register file\<close>

lemma delay_cycles_id [simp]: "delay_cycles cycles s = s"
  by (simp add: delay_cycles_def)

lemma WFI_id [simp]: "WFI s = s"
  by (simp add: WFI_def)

lemma read_write_reg [simp]:
  "read_reg r (write_reg r' v s) = (if r = r' then v else read_reg r s)"
  by (simp add: read_reg_def write_reg_def)

lemma read_NVIC_EnableIRQ [simp]: "read_reg r (NVIC_EnableIRQ irqn s) = read_reg r s"
  by (simp add: read_reg_def NVIC_EnableIRQ_def)

lemma read_gpio_sample [simp]:
  "read_reg r (gpio_sample d s) = (if r = GPIOA_DIN31_0 then d else read_reg r s)"
  by (simp add: read_reg_def gpio_sample_def)

lemma read_blank_state [simp]: "read_reg r blank_state = 0"
  by (simp add: read_reg_def blank_state_def)

lemma writes_write_reg [simp]: "writes (write_reg r v s) = writes s @ [(r, v)]"
  by (simp add: write_reg_def)

lemma writes_gpio_sample [simp]: "writes (gpio_sample d s) = writes s"
  by (simp add: gpio_sample_def)

lemma writes_blank_state [simp]: "writes blank_state = []"
  by (simp add: blank_state_def)

lemma nvic_write_reg [simp]: "nvic_enabled (write_reg r v s) = nvic_enabled s"
  by (simp add: write_reg_def)

lemma nvic_gpio_sample [simp]: "nvic_enabled (gpio_sample d s) = nvic_enabled s"
  by (simp add: gpio_sample_def)

lemma nvic_NVIC_EnableIRQ [simp]:
  "nvic_enabled (NVIC_EnableIRQ irqn s) = insert irqn (nvic_enabled s)"
  by (simp add: NVIC_EnableIRQ_def)

text \<open>Writing to a register the value it already holds leaves the register file as it was.\<close>

lemma regs_write_reg_same: "read_reg r s = v \<Longrightarrow> regs (write_reg r v s) = regs s"
  by (auto simp: read_reg_def write_reg_def)

lemmas stmt_defs = block_def or_reg_def and_reg_def buzzer_enable_def buzzer_disable_def

section \<open>The button test of the main loop\<close>

lemma sw_sum: "SW1 + SW2 + SW3 + SW4 = 0x07800000"
  by (simp add: SW1_def SW2_def SW3_def SW4_def)

lemma sw1_test: "(d AND (SW1 + SW2 + SW3 + SW4)) AND SW1 = d AND SW1"
proof -
  have "(0x07800000 :: u32) AND 0x00800000 = 0x00800000" by simp
  then show ?thesis
    by (simp only: sw_sum) (simp add: SW1_def and.assoc)
qed

lemma sw1_bit: "d AND SW1 = 0 \<longleftrightarrow> \<not> bit d 23"
  using and_exp_eq_0_iff_not_bit [of d 23] by (simp add: SW1_def)

lemma sw1_pressed_iff: "(d AND (SW1 + SW2 + SW3 + SW4)) AND SW1 = 0 \<longleftrightarrow> \<not> bit d 23"
  by (simp only: sw1_test sw1_bit)

lemma loop_body_cases:
  "loop_body k s =
     (if bit (read_reg GPIOA_DIN31_0 s) 23 then buzzer_disable k s else buzzer_enable k s)"
  by (simp add: loop_body_def Let_def sw1_pressed_iff)

lemma pwm_en_buzzer_enable: "pwm_en k (buzzer_enable k s) = k GPTIMER_CTRCTL_EN_ENABLED"
  by (simp add: pwm_en_def stmt_defs)

lemma pwm_en_buzzer_disable: "pwm_en k (buzzer_disable k s) = 0"
  by (simp add: pwm_en_def stmt_defs and.assoc)

lemma pwm_en_loop_body:
  "pwm_en k (loop_body k s) =
     (if bit (read_reg GPIOA_DIN31_0 s) 23 then 0 else k GPTIMER_CTRCTL_EN_ENABLED)"
  by (simp add: loop_body_cases pwm_en_buzzer_enable pwm_en_buzzer_disable)

lemma regs_buzzer_enable_twice:
  "regs (buzzer_enable k (buzzer_enable k s)) = regs (buzzer_enable k s)"
  by (simp add: stmt_defs or.assoc regs_write_reg_same)

lemma regs_buzzer_disable_twice:
  "regs (buzzer_disable k (buzzer_disable k s)) = regs (buzzer_disable k s)"
  by (simp add: stmt_defs and.assoc regs_write_reg_same)

lemma bit_all_released: "bit all_released 23"
  by (simp add: all_released_def bit_iff_odd)

lemma bit_sw1_pressed: "\<not> bit sw1_pressed 23"
  by (simp add: sw1_pressed_def bit_iff_odd)

lemma bit_sw234_pressed: "bit sw234_pressed 23"
  by (simp add: sw234_pressed_def bit_iff_odd)

section \<open>Runs of the main loop\<close>

lemma main_loop_append: "main_loop k (ds @ es) s = main_loop k es (main_loop k ds s)"
  by (induction ds arbitrary: s) simp_all

lemma read_loop_body_other:
  "r \<noteq> Timer TIMA1 COUNTERREGS_CTRCTL \<Longrightarrow> read_reg r (loop_body k s) = read_reg r s"
  by (simp add: loop_body_cases stmt_defs)

lemma nvic_loop_body: "nvic_enabled (loop_body k s) = nvic_enabled s"
  by (simp add: loop_body_cases stmt_defs)

lemma read_main_loop_timg0:
  "read_reg (Timer TIMG0 f) (main_loop k ds s) = read_reg (Timer TIMG0 f) s"
  by (induction ds arbitrary: s) (simp_all add: read_loop_body_other)

lemma nvic_main_loop: "nvic_enabled (main_loop k ds s) = nvic_enabled s"
  by (induction ds arbitrary: s) (simp_all add: nvic_loop_body)

section \<open>The state at the start of the loop\<close>

lemma main_init_pwm_en: "pwm_en k (main_init k s) = 0"
  by (simp add: main_init_def EnableTimerG0_def SetTimerG0Delay_def block_def pwm_en_def
      or_reg_def) (simp add: buzzer_disable_def and_reg_def and.assoc)

lemma main_init_example_ctrctl:
  "read_reg (Timer TIMA1 COUNTERREGS_CTRCTL) (main_init example_vendor blank_state) =
     0x20000022"
  by (simp add: main_init_def EnableTimerG0_def SetTimerG0Delay_def block_def or_reg_def)
    (simp add: buzzer_disable_def and_reg_def InitializeTimerA1_PWM_def block_def or_reg_def)

lemma read_InitializeTimerA1_PWM_timg0:
  "read_reg (Timer TIMG0 f) (InitializeTimerA1_PWM k s) = read_reg (Timer TIMG0 f) s"
  by (simp add: InitializeTimerA1_PWM_def stmt_defs)

lemma main_init_timg0:
  "read_reg (Timer TIMG0 CLKSEL) (main_init k s) = k GPTIMER_CLKSEL_LFCLK_SEL_ENABLE"
  "read_reg (Timer TIMG0 COUNTERREGS_CTRCTL) (main_init k s) =
     k GPTIMER_CTRCTL_REPEAT_REPEAT_1 OR k GPTIMER_CTRCTL_EN_ENABLED"
  "read_reg (Timer TIMG0 CPU_INT_IMASK) (main_init k s) =
     read_reg (Timer TIMG0 CPU_INT_IMASK) (InitializeGPIO k s) OR k GPTIMER_CPU_INT_IMASK_Z_SET"
  "read_reg (Timer TIMG0 COMMONREGS_CCLKCTL) (main_init k s) = k GPTIMER_CCLKCTL_CLKEN_ENABLED"
  "read_reg (Timer TIMG0 COUNTERREGS_LOAD) (main_init k s) = 20"
  "k TIMG0_INT_IRQn \<in> nvic_enabled (main_init k s)"
  by (simp_all add: main_init_def EnableTimerG0_def SetTimerG0Delay_def InitializeTimerG0_def
      read_InitializeTimerA1_PWM_timg0 block_def or_reg_def buzzer_disable_def and_reg_def)

section \<open>The PWM period and its compare value\<close>

text \<open>
  C1, as amended. \<^verbatim>\<open>InitializeTimerA1_PWM\<close> writes 3999 to LOAD and then
  \<^verbatim>\<open>(LOAD + 1) / 2\<close> to the compare register: the compare value is 2000, half of the
  4000 timer ticks that one period lasts, not half of the LOAD value.
  \<^verbatim>\<open>SetTimerA1Period\<close> is still to be written and leaves both registers as they were.
\<close>

theorem init_duty_is_half_of_load_plus_one:
  "read_reg (Timer TIMA1 COUNTERREGS_LOAD) (InitializeTimerA1_PWM k s) = 3999 \<and>
   read_reg (Timer TIMA1 (COUNTERREGS_CC_01 0)) (InitializeTimerA1_PWM k s) =
     (read_reg (Timer TIMA1 COUNTERREGS_LOAD) (InitializeTimerA1_PWM k s) + 1) div 2 \<and>
   read_reg (Timer TIMA1 (COUNTERREGS_CC_01 0)) (InitializeTimerA1_PWM k s) = 2000 \<and>
   read_reg (Timer TIMA1 COUNTERREGS_LOAD) (SetTimerA1Period period s) =
     read_reg (Timer TIMA1 COUNTERREGS_LOAD) s \<and>
   read_reg (Timer TIMA1 (COUNTERREGS_CC_01 0)) (SetTimerA1Period period s) =
     read_reg (Timer TIMA1 (COUNTERREGS_CC_01 0)) s"
  by (simp add: InitializeTimerA1_PWM_def SetTimerA1Period_def stmt_defs)

text \<open>
  C1 as stated fails: with the period register at 3999 the compare value is not
  \<open>3999 div 2 = 1999\<close>, neither after the initialisation nor after
  \<^verbatim>\<open>SetTimerA1Period(3999)\<close> on a blank register file.
\<close>

theorem duty_not_half_of_load_counterexample:
  "read_reg (Timer TIMA1 COUNTERREGS_LOAD)
     (InitializeTimerA1_PWM example_vendor blank_state) = 3999 \<and>
   read_reg (Timer TIMA1 (COUNTERREGS_CC_01 0))
     (InitializeTimerA1_PWM example_vendor blank_state) \<noteq> 3999 div 2 \<and>
   read_reg (Timer TIMA1 (COUNTERREGS_CC_01 0))
     (SetTimerA1Period 3999 blank_state) \<noteq> 3999 div 2"
  by (simp add: InitializeTimerA1_PWM_def SetTimerA1Period_def stmt_defs)

text \<open>
  C6, as amended. After \<^verbatim>\<open>InitializeTimerA1_PWM\<close> the PWM timer has BUSCLK selected
  and the divide-by-4 ratio set, an 8 MHz timer clock, and LOAD is 3999, so a period
  is LOAD + 1 = 4000 ticks and the output frequency is 8000000 / 4000 = 2000 Hz. The
  compare value is 2000, half of the 4000 ticks of a period (a 50% square wave), not
  half of the value 3999 of the period register.
\<close>

theorem init_pwm_2khz_square_wave:
  "read_reg (Timer TIMA1 CLKSEL) (InitializeTimerA1_PWM k s) =
     k GPTIMER_CLKSEL_BUSCLK_SEL_ENABLE \<and>
   read_reg (Timer TIMA1 CLKDIV) (InitializeTimerA1_PWM k s) =
     k GPTIMER_CLKDIV_RATIO_DIV_BY_4 \<and>
   TIMA1_clock_hz k (InitializeTimerA1_PWM k s) = Some 8000000 \<and>
   read_reg (Timer TIMA1 COUNTERREGS_LOAD) (InitializeTimerA1_PWM k s) = 3999 \<and>
   pwm_period_ticks (InitializeTimerA1_PWM k s) = 4000 \<and>
   pwm_frequency_hz k (InitializeTimerA1_PWM k s) = Some 2000 \<and>
   read_reg (Timer TIMA1 (COUNTERREGS_CC_01 0)) (InitializeTimerA1_PWM k s) = 2000 \<and>
   2 * unat (read_reg (Timer TIMA1 (COUNTERREGS_CC_01 0)) (InitializeTimerA1_PWM k s)) =
     pwm_period_ticks (InitializeTimerA1_PWM k s)"
proof -
  have regs_after:
    "read_reg (Timer TIMA1 CLKSEL) (InitializeTimerA1_PWM k s) =
       k GPTIMER_CLKSEL_BUSCLK_SEL_ENABLE"
    "read_reg (Timer TIMA1 CLKDIV) (InitializeTimerA1_PWM k s) =
       k GPTIMER_CLKDIV_RATIO_DIV_BY_4"
    "read_reg (Timer TIMA1 COUNTERREGS_LOAD) (InitializeTimerA1_PWM k s) = 3999"
    "read_reg (Timer TIMA1 (COUNTERREGS_CC_01 0)) (InitializeTimerA1_PWM k s) = 2000"
    by (simp_all add: InitializeTimerA1_PWM_def stmt_defs)
  then show ?thesis
    by (simp add: TIMA1_clock_hz_def BUSCLK_HZ_def pwm_period_ticks_def pwm_frequency_hz_def)
qed

text \<open>
  C6 as stated fails in its last part: with the period register at 3999, the compare
  value after the initialisation is neither \<open>3999 div 2\<close> nor does doubling it give 3999.
\<close>

theorem compare_not_half_of_period_register_counterexample:
  "read_reg (Timer TIMA1 (COUNTERREGS_CC_01 0))
     (InitializeTimerA1_PWM example_vendor blank_state) \<noteq>
   read_reg (Timer TIMA1 COUNTERREGS_LOAD)
     (InitializeTimerA1_PWM example_vendor blank_state) div 2 \<and>
   2 * read_reg (Timer TIMA1 (COUNTERREGS_CC_01 0))
     (InitializeTimerA1_PWM example_vendor blank_state) \<noteq>
   read_reg (Timer TIMA1 COUNTERREGS_LOAD)
     (InitializeTimerA1_PWM example_vendor blank_state)"
  by (simp add: InitializeTimerA1_PWM_def stmt_defs)

section \<open>One pass of the main loop\<close>

text \<open>
  C2. Whatever the input register reads in a pass of the loop: if bit 23 (SW1, active
  low) is 0, the enable field of the PWM timer is set after the pass, and otherwise it
  is cleared.
\<close>

theorem loop_body_follows_sw1:
  "(\<not> bit (read_reg GPIOA_DIN31_0 s) 23 \<longrightarrow>
      pwm_en k (loop_body k s) = k GPTIMER_CTRCTL_EN_ENABLED) \<and>
   (bit (read_reg GPIOA_DIN31_0 s) 23 \<longrightarrow> pwm_en k (loop_body k s) = 0)"
  by (simp add: pwm_en_loop_body)

text \<open>C2 at two inputs: SW1 pressed switches the buzzer on, all released switches it off.\<close>

theorem loop_body_follows_sw1_witness:
  "\<not> bit (read_reg GPIOA_DIN31_0 (gpio_sample sw1_pressed blank_state)) 23 \<and>
   pwm_en example_vendor (loop_body example_vendor (gpio_sample sw1_pressed blank_state)) = 1 \<and>
   bit (read_reg GPIOA_DIN31_0 (gpio_sample all_released blank_state)) 23 \<and>
   pwm_en example_vendor (loop_body example_vendor (gpio_sample all_released blank_state)) = 0"
  using loop_body_follows_sw1 [of "gpio_sample sw1_pressed blank_state" example_vendor]
    loop_body_follows_sw1 [of "gpio_sample all_released blank_state" example_vendor]
  by (simp add: bit_all_released bit_sw1_pressed)

text \<open>
  C5. For every sample in which SW1 is not pressed (its bit reads 1), whatever SW2, SW3
  and SW4 and the other pins read, the pass ends with the enable field cleared.
\<close>

theorem sw1_released_is_silent:
  "d AND SW1 \<noteq> 0 \<Longrightarrow> pwm_en k (loop_body k (gpio_sample d s)) = 0"
  by (simp add: pwm_en_loop_body sw1_bit)

text \<open>C5 with SW2, SW3 and SW4 all pressed and SW1 released.\<close>

theorem sw1_released_is_silent_witness:
  "sw234_pressed AND SW1 \<noteq> 0 \<and>
   pwm_en example_vendor (loop_body example_vendor (gpio_sample sw234_pressed blank_state)) = 0"
proof -
  have h: "sw234_pressed AND SW1 \<noteq> 0"
    by (simp add: sw1_bit bit_sw234_pressed)
  from h sw1_released_is_silent [OF h, of example_vendor blank_state] show ?thesis
    by simp
qed

text \<open>
  C9. Two passes of the loop whose samples agree on the SW1 bit end with the same enable
  field, whatever the two samples read on the other pins and whatever the two states
  were before.
\<close>

theorem loop_body_depends_only_on_sw1:
  "d1 AND SW1 = d2 AND SW1 \<Longrightarrow>
   pwm_en k (loop_body k (gpio_sample d1 s1)) = pwm_en k (loop_body k (gpio_sample d2 s2))"
proof -
  assume "d1 AND SW1 = d2 AND SW1"
  then have "bit d1 23 = bit d2 23"
    using sw1_bit [of d1] sw1_bit [of d2] by simp
  then show ?thesis
    by (simp add: pwm_en_loop_body)
qed

text \<open>
  C9 with SW1 alone pressed, from a state with the buzzer off, against all four buttons
  pressed, from a state with the buzzer on.
\<close>

theorem loop_body_depends_only_on_sw1_witness:
  "sw1_pressed AND SW1 = 0 AND SW1 \<and>
   pwm_en example_vendor (loop_body example_vendor (gpio_sample sw1_pressed blank_state)) =
   pwm_en example_vendor
     (loop_body example_vendor (gpio_sample 0 (buzzer_enable example_vendor blank_state)))"
proof -
  have h: "sw1_pressed AND SW1 = 0 AND SW1"
    using sw1_bit [of sw1_pressed] by (simp add: bit_sw1_pressed)
  from h loop_body_depends_only_on_sw1 [OF h] show ?thesis
    by simp
qed

section \<open>Several ticks\<close>

text \<open>
  C3, as amended. The loop does not debounce: after any run of ticks the enable field is
  decided by the SW1 level of the last tick alone, so the tone decision changes at the
  first tick whose SW1 level differs from the one before (the claim's behaviour for
  N = 1 only).
\<close>

theorem last_sample_decides:
  "pwm_en k (main_loop k (ds @ [d]) s) =
     (if bit d 23 then 0 else k GPTIMER_CTRCTL_EN_ENABLED)"
  by (simp add: main_loop_append pwm_en_loop_body)

text \<open>
  C3 as stated fails for every N of 2 or more: from power-up, one tick with all buttons
  released leaves the buzzer off, a single tick with SW1 pressed switches it on, and a
  single released tick switches it off again.
\<close>

theorem single_tick_flips_counterexample:
  "pwm_en example_vendor (main example_vendor [all_released] blank_state) = 0 \<and>
   pwm_en example_vendor (main example_vendor [all_released, sw1_pressed] blank_state) = 1 \<and>
   pwm_en example_vendor
     (main example_vendor [all_released, sw1_pressed, all_released] blank_state) = 0"
  by (simp add: main_def pwm_en_loop_body bit_all_released bit_sw1_pressed)

text \<open>
  C4, as amended. Every pass of the loop performs exactly one register write, whether
  or not the tone decision changed: a read-modify-write of the control register of the
  PWM timer that sets the enable bits when SW1 reads 0 and clears them otherwise, and
  keeps the other bits of the register and all other registers. When the SW1 level is
  the same as at the previous tick, the value written is the value the register already
  holds: the pass changes no register.
\<close>

theorem loop_body_writes_every_tick:
  "writes (loop_body k s) =
     writes s @
     [(Timer TIMA1 COUNTERREGS_CTRCTL,
       if bit (read_reg GPIOA_DIN31_0 s) 23
       then read_reg (Timer TIMA1 COUNTERREGS_CTRCTL) s AND NOT (k GPTIMER_CTRCTL_EN_ENABLED)
       else read_reg (Timer TIMA1 COUNTERREGS_CTRCTL) s OR k GPTIMER_CTRCTL_EN_ENABLED)] \<and>
   regs (loop_body k s) =
     (regs s)(Timer TIMA1 COUNTERREGS_CTRCTL :=
       if bit (read_reg GPIOA_DIN31_0 s) 23
       then read_reg (Timer TIMA1 COUNTERREGS_CTRCTL) s AND NOT (k GPTIMER_CTRCTL_EN_ENABLED)
       else read_reg (Timer TIMA1 COUNTERREGS_CTRCTL) s OR k GPTIMER_CTRCTL_EN_ENABLED) \<and>
   (bit d1 23 = bit d2 23 \<longrightarrow>
      regs (loop_body k (gpio_sample d2 (loop_body k (gpio_sample d1 s)))) =
      regs (gpio_sample d2 (loop_body k (gpio_sample d1 s))))"
proof (intro conjI impI)
  show "writes (loop_body k s) =
     writes s @
     [(Timer TIMA1 COUNTERREGS_CTRCTL,
       if bit (read_reg GPIOA_DIN31_0 s) 23
       then read_reg (Timer TIMA1 COUNTERREGS_CTRCTL) s AND NOT (k GPTIMER_CTRCTL_EN_ENABLED)
       else read_reg (Timer TIMA1 COUNTERREGS_CTRCTL) s OR k GPTIMER_CTRCTL_EN_ENABLED)]"
    by (simp add: loop_body_cases stmt_defs)
next
  show "regs (loop_body k s) =
     (regs s)(Timer TIMA1 COUNTERREGS_CTRCTL :=
       if bit (read_reg GPIOA_DIN31_0 s) 23
       then read_reg (Timer TIMA1 COUNTERREGS_CTRCTL) s AND NOT (k GPTIMER_CTRCTL_EN_ENABLED)
       else read_reg (Timer TIMA1 COUNTERREGS_CTRCTL) s OR k GPTIMER_CTRCTL_EN_ENABLED)"
    by (simp add: loop_body_cases stmt_defs write_reg_def)
next
  assume same: "bit d1 23 = bit d2 23"
  define t where "t = gpio_sample d2 (loop_body k (gpio_sample d1 s))"
  define c where "c = read_reg (Timer TIMA1 COUNTERREGS_CTRCTL) s"
  define e where "e = k GPTIMER_CTRCTL_EN_ENABLED"
  have ctr: "read_reg (Timer TIMA1 COUNTERREGS_CTRCTL) t =
      (if bit d2 23 then c AND NOT e else c OR e)"
    using same by (simp add: t_def c_def e_def loop_body_cases stmt_defs)
  have din: "read_reg GPIOA_DIN31_0 t = d2"
    by (simp add: t_def)
  have "regs (loop_body k t) = regs t"
  proof (cases "bit d2 23")
    case True
    then have "read_reg (Timer TIMA1 COUNTERREGS_CTRCTL) t AND NOT e =
        read_reg (Timer TIMA1 COUNTERREGS_CTRCTL) t"
      by (simp add: ctr and.assoc)
    then show ?thesis
      using True by (simp add: loop_body_cases din stmt_defs e_def regs_write_reg_same)
  next
    case False
    then have "read_reg (Timer TIMA1 COUNTERREGS_CTRCTL) t OR e =
        read_reg (Timer TIMA1 COUNTERREGS_CTRCTL) t"
      by (simp add: ctr or.assoc)
    then show ?thesis
      using False by (simp add: loop_body_cases din stmt_defs e_def regs_write_reg_same)
  qed
  then show "regs (loop_body k (gpio_sample d2 (loop_body k (gpio_sample d1 s)))) =
      regs (gpio_sample d2 (loop_body k (gpio_sample d1 s)))"
    by (simp add: t_def)
qed

text \<open>
  C4 at the first two ticks of the program, SW1 released in both and the other three
  buttons pressed in the second: the first pass writes the control register as the
  initialisation left it, mode bits kept and enable bit clear, and the second pass
  leaves the registers as the tick found them.
\<close>

theorem loop_body_writes_every_tick_witness:
  "bit all_released 23 = bit sw234_pressed 23 \<and>
   writes (loop_body example_vendor (gpio_sample all_released (main_init example_vendor blank_state))) =
     writes (main_init example_vendor blank_state) @
       [(Timer TIMA1 COUNTERREGS_CTRCTL, 0x20000022)] \<and>
   regs (loop_body example_vendor (gpio_sample sw234_pressed
          (loop_body example_vendor
            (gpio_sample all_released (main_init example_vendor blank_state))))) =
   regs (gpio_sample sw234_pressed
          (loop_body example_vendor
            (gpio_sample all_released (main_init example_vendor blank_state))))"
proof -
  define s0 where "s0 = main_init example_vendor blank_state"
  have same: "bit all_released 23 = bit sw234_pressed 23"
    by (simp add: bit_all_released bit_sw234_pressed)
  have log: "writes (loop_body example_vendor (gpio_sample all_released s0)) =
      writes s0 @ [(Timer TIMA1 COUNTERREGS_CTRCTL, 0x20000022)]"
    using loop_body_writes_every_tick [of example_vendor "gpio_sample all_released s0"]
    by (simp add: bit_all_released s0_def main_init_example_ctrctl)
  from loop_body_writes_every_tick [of example_vendor s0 all_released sw234_pressed] same
  have "regs (loop_body example_vendor (gpio_sample sw234_pressed
          (loop_body example_vendor (gpio_sample all_released s0)))) =
      regs (gpio_sample sw234_pressed
          (loop_body example_vendor (gpio_sample all_released s0)))"
    by blast
  with same log show ?thesis
    unfolding s0_def by blast
qed

text \<open>
  C4 as stated fails: in the first two ticks of the program, with all buttons released,
  the tone decision stays Silent, and the second tick still writes the control register
  of the PWM timer.
\<close>

theorem unchanged_tick_still_writes_counterexample:
  "pwm_en example_vendor (main example_vendor [all_released] blank_state) = 0 \<and>
   pwm_en example_vendor (main example_vendor [all_released, all_released] blank_state) = 0 \<and>
   writes (main example_vendor [all_released, all_released] blank_state) =
     writes (main example_vendor [all_released] blank_state) @
       [(Timer TIMA1 COUNTERREGS_CTRCTL, 0x20000022)]"
  by (simp add: main_def pwm_en_loop_body bit_all_released)
    (simp add: loop_body_cases bit_all_released stmt_defs main_init_example_ctrctl)

section \<open>Switching the PWM output\<close>

text \<open>
  C7, as amended. Switching twice is the same as switching once: for the two statements
  of the main program, the register file after two enable writes equals the one after
  one, with the enable field set, and likewise for two disable writes, with the field
  cleared; for \<^verbatim>\<open>EnableTimerA1PWM\<close> and \<^verbatim>\<open>DisableTimerA1PWM\<close>, which are still to be
  written, two calls equal one call and the enable field stays as it was before the
  call, so a call of \<^verbatim>\<open>EnableTimerA1PWM\<close> does not make the output active.
\<close>

theorem enable_disable_idempotent:
  "EnableTimerA1PWM (EnableTimerA1PWM s) = EnableTimerA1PWM s \<and>
   DisableTimerA1PWM (DisableTimerA1PWM s) = DisableTimerA1PWM s \<and>
   pwm_en k (EnableTimerA1PWM s) = pwm_en k s \<and>
   pwm_en k (DisableTimerA1PWM s) = pwm_en k s \<and>
   regs (buzzer_enable k (buzzer_enable k s)) = regs (buzzer_enable k s) \<and>
   pwm_en k (buzzer_enable k s) = k GPTIMER_CTRCTL_EN_ENABLED \<and>
   regs (buzzer_disable k (buzzer_disable k s)) = regs (buzzer_disable k s) \<and>
   pwm_en k (buzzer_disable k s) = 0"
  by (simp add: EnableTimerA1PWM_def DisableTimerA1PWM_def regs_buzzer_enable_twice
      regs_buzzer_disable_twice pwm_en_buzzer_enable pwm_en_buzzer_disable)

text \<open>
  C7 as stated fails for \<^verbatim>\<open>EnableTimerA1PWM\<close>: at the start of the loop the buzzer is
  off, and after two calls the enable field, bit 0 here, is still clear.
\<close>

theorem stub_enable_not_active_counterexample:
  "pwm_en example_vendor (main_init example_vendor blank_state) = 0 \<and>
   pwm_en example_vendor
     (EnableTimerA1PWM (EnableTimerA1PWM (main_init example_vendor blank_state))) = 0 \<and>
   example_vendor GPTIMER_CTRCTL_EN_ENABLED = 1"
  by (simp add: EnableTimerA1PWM_def main_init_pwm_en)

text \<open>
  C10. For every argument and every state, \<^verbatim>\<open>SetTimerA1Period\<close>, \<^verbatim>\<open>EnableTimerA1PWM\<close>
  and \<^verbatim>\<open>DisableTimerA1PWM\<close> return the state they were given: no register changes,
  nothing is written, no interrupt line is touched.
\<close>

theorem stubs_are_noops:
  "SetTimerA1Period period s = s \<and> EnableTimerA1PWM s = s \<and> DisableTimerA1PWM s = s"
  by (simp add: SetTimerA1Period_def EnableTimerA1PWM_def DisableTimerA1PWM_def)

section \<open>The tick timer\<close>

text \<open>
  C8. At the start of the loop and after any number of ticks, TIMG0 is clocked from the
  low-frequency clock, its control register holds repeat mode together with the enable
  bit, the zero event is unmasked, its interrupt line is enabled, and LOAD holds 20:
  20 ticks of a 32 kHz clock are 0.6 ms (610 microseconds at 32768 Hz, 625 at 32000 Hz).
  The loop never writes to TIMG0.
\<close>

theorem tick_timer_configuration:
  "read_reg (Timer TIMG0 CLKSEL) (main k ds s) = k GPTIMER_CLKSEL_LFCLK_SEL_ENABLE \<and>
   read_reg (Timer TIMG0 COUNTERREGS_CTRCTL) (main k ds s) =
     k GPTIMER_CTRCTL_REPEAT_REPEAT_1 OR k GPTIMER_CTRCTL_EN_ENABLED \<and>
   read_reg (Timer TIMG0 CPU_INT_IMASK) (main k ds s) AND k GPTIMER_CPU_INT_IMASK_Z_SET =
     k GPTIMER_CPU_INT_IMASK_Z_SET \<and>
   read_reg (Timer TIMG0 COMMONREGS_CCLKCTL) (main k ds s) = k GPTIMER_CCLKCTL_CLKEN_ENABLED \<and>
   read_reg (Timer TIMG0 COUNTERREGS_LOAD) (main k ds s) = 20 \<and>
   k TIMG0_INT_IRQn \<in> nvic_enabled (main k ds s) \<and>
   tick_interval_us 32768 (read_reg (Timer TIMG0 COUNTERREGS_LOAD) (main k ds s)) = 610 \<and>
   tick_interval_us 32000 (read_reg (Timer TIMG0 COUNTERREGS_LOAD) (main k ds s)) = 625"
  by (simp add: main_def read_main_loop_timg0 nvic_main_loop main_init_timg0
      tick_interval_us_def)

end
